theory Spec2Isabelle
  imports Complex_Main "HOL-Library.Log_Nat"
begin

section \<open>Numbers of JavaScript\<close>

text \<open>
  A number of JavaScript is an IEEE 754 double: a rational of the form \<open>m * 2 ^ e\<close>
  with \<open>\<bar>m\<bar> < 2 ^ 53\<close> and \<open>- 1074 \<le> e\<close>, below \<open>2 ^ 1024\<close> in
  magnitude, or one of \<^verbatim>\<open>Infinity\<close>, \<^verbatim>\<open>-Infinity\<close> and \<^verbatim>\<open>NaN\<close>, which the
  handlers never tell apart and which are one value here.
\<close>

datatype number = Num rat | NonFinite

text \<open>
  The binary exponent of a rational other than 0: \<open>2 ^ expo x \<le> \<bar>x\<bar> < 2 ^ (expo x + 1)\<close>
  (lemma \<open>expo_bounds\<close>). The bit lengths of numerator and denominator give it up to
  one, and a comparison settles it.
\<close>

definition expo :: "rat \<Rightarrow> int" where
  "expo x =
     (case quotient_of \<bar>x\<bar> of
        (a, b) \<Rightarrow>
          (let e = bitlen a - bitlen b in if 2 powi e \<le> \<bar>x\<bar> then e else e - 1))"

text \<open>Rounding to the nearest integer, a tie going to the even one.\<close>

definition rne :: "rat \<Rightarrow> int" where
  "rne x =
     (let n = \<lfloor>x\<rfloor>; r = x - of_int n
      in if r < 1 / 2 then n else if 1 / 2 < r then n + 1 else if even n then n else n + 1)"

text \<open>
  The double nearest to a rational, as every arithmetic operation of JavaScript and the
  conversion of a decimal text to a number round their exact result: 53 significant
  bits, ties to even, exponents no lower than \<open>- 1074\<close> (gradual underflow), and
  \<^verbatim>\<open>Infinity\<close> from \<open>2 ^ 1024\<close> on.
\<close>

definition fl :: "rat \<Rightarrow> number" where
  "fl x =
     (if x = 0 then Num 0
      else
        (let e = max (expo x - 52) (- 1074);
             y = sgn x * of_int (rne (\<bar>x\<bar> / 2 powi e)) * 2 powi e
         in if \<bar>y\<bar> < 2 powi 1024 then Num y else NonFinite))"

text \<open>
  \<^verbatim>\<open>a * b\<close> and \<^verbatim>\<open>a / b\<close> for a finite right operand, as the handlers have them. A
  product with a non-finite factor is not finite, nor is a quotient by zero.
\<close>

definition js_times :: "number \<Rightarrow> rat \<Rightarrow> number" where
  "js_times a b = (case a of NonFinite \<Rightarrow> NonFinite | Num x \<Rightarrow> fl (x * b))"

definition js_divide :: "number \<Rightarrow> rat \<Rightarrow> number" where
  "js_divide a b =
     (case a of
        NonFinite \<Rightarrow> NonFinite
      | Num x \<Rightarrow> if b = 0 then NonFinite else fl (x / b))"

section \<open>The store\<close>

text \<open>
  The handlers of \<^verbatim>\<open>src/server.js\<close> talk to a relational store through
  \<^verbatim>\<open>connection.query\<close>. A table is the list of its rows, a query returns the list
  of the rows it selects (\<^verbatim>\<open>result.rows\<close>), a write returns the store updated.
  The queries of one request all see the store the request started with: requests are
  handled one after the other.

  A calendar date is its day number, so that adding days is addition and the difference
  in whole days is subtraction.
\<close>

type_synonym date = int

text \<open>
  Modelled from the spec: the schema of the tables, which no source file declares. The
  columns are those of section 3 (DATA MODEL) and of the statements of the handlers:
  the ids, \<^verbatim>\<open>stockTotal\<close> and \<^verbatim>\<open>daysRented\<close> are integers (of 32 bits, as the
  integer columns of PostgreSQL are),
  \<^verbatim>\<open>pricePerDay\<close>, \<^verbatim>\<open>originalPrice\<close> and \<^verbatim>\<open>delayFee\<close> are numeric and
  finite, \<^verbatim>\<open>returnDate\<close> and \<^verbatim>\<open>delayFee\<close> are nullable. Of the games and the
  customers only the columns the rental handlers read are kept.

  A handler reads a numeric column as the double nearest to its value (\<open>fl\<close>). It
  writes a number as the decimal text JavaScript prints for it, the shortest that reads
  back as the same double; \<^verbatim>\<open>originalPrice\<close> and \<^verbatim>\<open>delayFee\<close>, which only the
  handlers write, hold that double here.
\<close>

record game =
  game_id :: int
  stockTotal :: int
  pricePerDay :: rat

record customer =
  customer_id :: int

record rental =
  rental_id :: int
  customerId :: int
  gameId :: int
  rentDate :: date
  daysRented :: int
  returnDate :: "date option"
  originalPrice :: rat
  delayFee :: "rat option"

text \<open>
  \<open>rentals_id_seq\<close> is the sequence behind the \<^verbatim>\<open>id\<close> column of
  \<^verbatim>\<open>rentals\<close>: the \<^verbatim>\<open>INSERT\<close> of the source gives no id.
\<close>

record store =
  games :: "game list"
  customers :: "customer list"
  rentals :: "rental list"
  rentals_id_seq :: int

text \<open>
  What the \<^verbatim>\<open>try\<close> blocks of the handlers catch: a \<^verbatim>\<open>TypeError\<close> of JavaScript
  (reading a property of \<^verbatim>\<open>undefined\<close>, as \<^verbatim>\<open>rows[0].x\<close> on an empty result
  does), or an error the store raises on a statement.
\<close>

datatype js_error = TypeError | DatabaseError

text \<open>
  A number handed as the parameter of a statement where the column is an integer one: the
  store raises unless the number is an integer of 32 bits.
\<close>

definition int_param :: "rat \<Rightarrow> js_error + int" where
  "int_param v =
     (if of_int \<lfloor>v\<rfloor> = v \<and> - 2147483648 \<le> \<lfloor>v\<rfloor> \<and> \<lfloor>v\<rfloor> \<le> 2147483647 then Inr \<lfloor>v\<rfloor>
      else Inl DatabaseError)"

text \<open>\<^verbatim>\<open>SELECT ... FROM games WHERE id = $1\<close> (lines 276, 292 and 305).\<close>

definition select_games :: "store \<Rightarrow> rat \<Rightarrow> js_error + game list" where
  "select_games db v =
     (case int_param v of
        Inl e \<Rightarrow> Inl e
      | Inr i \<Rightarrow> Inr (filter (\<lambda>g. game_id g = i) (games db)))"

text \<open>\<^verbatim>\<open>SELECT id FROM customers WHERE id = $1\<close> (line 283).\<close>

definition select_customers :: "store \<Rightarrow> rat \<Rightarrow> js_error + customer list" where
  "select_customers db v =
     (case int_param v of
        Inl e \<Rightarrow> Inl e
      | Inr i \<Rightarrow> Inr (filter (\<lambda>c. customer_id c = i) (customers db)))"

text \<open>
  \<^verbatim>\<open>SELECT * FROM rentals WHERE "gameId" = $1\<close> (line 310): every rental of the
  game, whatever its \<^verbatim>\<open>returnDate\<close>.
\<close>

definition select_rentals_of_game :: "store \<Rightarrow> rat \<Rightarrow> js_error + rental list" where
  "select_rentals_of_game db v =
     (case int_param v of
        Inl e \<Rightarrow> Inl e
      | Inr i \<Rightarrow> Inr (filter (\<lambda>r. gameId r = i) (rentals db)))"

text \<open>
  \<^verbatim>\<open>INSERT INTO rentals ("customerId", "gameId", "rentDate", "daysRented",
  "originalPrice") VALUES ($1,$2,$3,$4,$5)\<close> (line 321). The row gets the next id of the
  sequence, and the store raises when that id has left the 32 bits of the column;
  \<^verbatim>\<open>returnDate\<close> and \<^verbatim>\<open>delayFee\<close> are not given and start null. The store
  raises as well on a price that is not finite.
\<close>

definition insert_rental ::
  "store \<Rightarrow> rat \<Rightarrow> rat \<Rightarrow> date \<Rightarrow> rat \<Rightarrow> number \<Rightarrow> js_error + store" where
  "insert_rental db cId gId date nDays price =
     (case int_param cId of
        Inl e \<Rightarrow> Inl e
      | Inr c \<Rightarrow>
     (case int_param gId of
        Inl e \<Rightarrow> Inl e
      | Inr g \<Rightarrow>
     (case int_param nDays of
        Inl e \<Rightarrow> Inl e
      | Inr n \<Rightarrow>
     (case price of
        NonFinite \<Rightarrow> Inl DatabaseError
      | Num p \<Rightarrow>
          if 2147483647 < rentals_id_seq db then Inl DatabaseError
          else
            Inr (db\<lparr>rentals := rentals db @
                   [\<lparr>rental_id = rentals_id_seq db, customerId = c, gameId = g,
                     rentDate = date, daysRented = n, returnDate = None,
                     originalPrice = p, delayFee = None\<rparr>],
                   rentals_id_seq := rentals_id_seq db + 1\<rparr>)))))"

text \<open>
  The id of \<^verbatim>\<open>/rentals/:id\<close> is the text of a path segment: \<open>Some i\<close> when it is
  the text of the integer \<open>i\<close> and \<open>i\<close> fits the 32 bits of the \<^verbatim>\<open>id\<close>
  column, \<open>None\<close> otherwise (no integer, or one beyond 32 bits), and then every
  statement that compares it with the column raises.

  \<^verbatim>\<open>SELECT ... FROM rentals WHERE id = $1\<close> (lines 336, 345, 387 and 396).
\<close>

definition select_rentals :: "store \<Rightarrow> int option \<Rightarrow> js_error + rental list" where
  "select_rentals db p =
     (case p of
        None \<Rightarrow> Inl DatabaseError
      | Some i \<Rightarrow> Inr (filter (\<lambda>r. rental_id r = i) (rentals db)))"

text \<open>
  \<^verbatim>\<open>UPDATE rentals SET "returnDate"=$1, "delayFee"=$2 WHERE id = $3\<close> (line 372). The
  fee is null (\<open>None\<close>) or a number; the store raises on one that is not finite.
\<close>

definition update_rental ::
  "store \<Rightarrow> date \<Rightarrow> number option \<Rightarrow> int option \<Rightarrow> js_error + store" where
  "update_rental db date fee p =
     (case p of
        None \<Rightarrow> Inl DatabaseError
      | Some i \<Rightarrow>
     (case fee of
        Some NonFinite \<Rightarrow> Inl DatabaseError
      | Some (Num f) \<Rightarrow>
          Inr (db\<lparr>rentals :=
                 map (\<lambda>r. if rental_id r = i
                           then r\<lparr>returnDate := Some date, delayFee := Some f\<rparr> else r)
                   (rentals db)\<rparr>)
      | None \<Rightarrow>
          Inr (db\<lparr>rentals :=
                 map (\<lambda>r. if rental_id r = i
                           then r\<lparr>returnDate := Some date, delayFee := None\<rparr> else r)
                   (rentals db)\<rparr>)))"

text \<open>\<^verbatim>\<open>DELETE FROM rentals WHERE id = $1\<close> (line 405).\<close>

definition delete_rental :: "store \<Rightarrow> int option \<Rightarrow> js_error + store" where
  "delete_rental db p =
     (case p of
        None \<Rightarrow> Inl DatabaseError
      | Some i \<Rightarrow> Inr (db\<lparr>rentals := filter (\<lambda>r. rental_id r \<noteq> i) (rentals db)\<rparr>))"

section \<open>POST /rentals\<close>

text \<open>
  The body of the request, as \<^verbatim>\<open>express.json\<close> hands it over. A field is
  \<open>Some v\<close> when it holds the number \<open>v\<close>, a double (or a string of the text
  JavaScript prints for \<open>v\<close>, which the schema, the handler's arithmetic and
  comparisons and the store all treat as \<open>v\<close>), and \<open>None\<close> when it is missing or
  nothing the schema takes for a number.
\<close>

record rentals_body =
  body_customerId :: "rat option"
  body_gameId :: "rat option"
  body_daysRented :: "rat option"

text \<open>
  \<^verbatim>\<open>rentalsReqSchema\<close> (lines 58 to 62): the three fields are
  \<^verbatim>\<open>joi.number().required()\<close>, with no bound and no integer rule. The body
  passes (\<^verbatim>\<open>valid.error\<close> of line 270 is not set) when each field is a number
  that \<^verbatim>\<open>joi\<close> calls safe: no larger in magnitude than \<open>2 ^ 53 - 1\<close>.
\<close>

definition safe :: "rat option \<Rightarrow> bool" where
  "safe f = (case f of None \<Rightarrow> False | Some v \<Rightarrow> \<bar>v\<bar> \<le> 9007199254740991)"

definition rentalsReqSchema :: "rentals_body \<Rightarrow> bool" where
  "rentalsReqSchema body \<longleftrightarrow>
     safe (body_customerId body) \<and> safe (body_gameId body) \<and> safe (body_daysRented body)"

text \<open>
  The \<^verbatim>\<open>try\<close> block of the handler (lines 274 to 326), statement by statement; the
  result is the status sent and the store left, or what was thrown. Line 281 multiplies
  two doubles: the price of the game as read from its column, and the days of the body.
\<close>

definition post_rentals_try ::
  "date \<Rightarrow> rat \<Rightarrow> rat \<Rightarrow> rat \<Rightarrow> store \<Rightarrow> js_error + (nat \<times> store)" where
  "post_rentals_try today cId gId nDays db =
     (case select_games db gId of
        Inl e \<Rightarrow> Inl e
      | Inr gamePrice \<Rightarrow>
     (case gamePrice of
        [] \<Rightarrow> Inl TypeError
      | g0 # _ \<Rightarrow>
     (let price = js_times (fl (pricePerDay g0)) nDays in
     (case select_customers db cId of
        Inl e \<Rightarrow> Inl e
      | Inr customerExists \<Rightarrow>
     if length customerExists \<le> 0 then Inr (400, db) else
     (case select_games db gId of
        Inl e \<Rightarrow> Inl e
      | Inr gameExists \<Rightarrow>
     if length gameExists \<le> 0 then Inr (400, db) else
     if nDays \<le> 0 then Inr (400, db) else
     (case select_games db gId of
        Inl e \<Rightarrow> Inl e
      | Inr stock \<Rightarrow>
     (case select_rentals_of_game db gId of
        Inl e \<Rightarrow> Inl e
      | Inr rentedGames \<Rightarrow>
     (case stock of
        [] \<Rightarrow> Inl TypeError
      | s0 # _ \<Rightarrow>
     if int (length rentedGames) \<ge> stockTotal s0 then Inr (400, db) else
     (case insert_rental db cId gId today nDays price of
        Inl e \<Rightarrow> Inl e
      | Inr db' \<Rightarrow> Inr (201, db'))))))))))"

text \<open>
  The handler (lines 261 to 330): validation first, then the \<^verbatim>\<open>try\<close> block, whose
  \<^verbatim>\<open>catch\<close> answers 500. Nothing is written before the last statement of the block,
  so the store is as it was when something is thrown.
\<close>

definition post_rentals :: "date \<Rightarrow> rentals_body \<Rightarrow> store \<Rightarrow> nat \<times> store" where
  "post_rentals today body db =
     (if \<not> rentalsReqSchema body then (400, db)
      else
        (case post_rentals_try today (the (body_customerId body)) (the (body_gameId body))
                (the (body_daysRented body)) db of
           Inl e \<Rightarrow> (500, db)
         | Inr r \<Rightarrow> r))"

section \<open>POST /rentals/:id/return\<close>

text \<open>
  The \<^verbatim>\<open>try\<close> block of the handler (lines 336 to 377). \<^verbatim>\<open>!rental.rows[0].returnDate\<close>
  is true when the column is null. Lines 356 and 369 divide and multiply doubles; the
  days and the difference of the dates are integers.
\<close>

definition post_rentals_return_try ::
  "date \<Rightarrow> int option \<Rightarrow> store \<Rightarrow> js_error + (nat \<times> store)" where
  "post_rentals_return_try today p db =
     (case select_rentals db p of
        Inl e \<Rightarrow> Inl e
      | Inr rentalExists \<Rightarrow>
     if length rentalExists > 0 then Inr (404, db) else
     (case select_rentals db p of
        Inl e \<Rightarrow> Inl e
      | Inr rental \<Rightarrow>
     (case rental of
        [] \<Rightarrow> Inl TypeError
      | r0 # _ \<Rightarrow>
     if returnDate r0 = None then Inr (400, db) else
     (let rentDate0 = rentDate r0;
          daysRented0 = daysRented r0;
          pricePerDay0 = js_divide (fl (originalPrice r0)) (of_int daysRented0);
          returnDate0 = today;
          expectedReturnDate = rentDate0 + daysRented0;
          diff = returnDate0 - expectedReturnDate;
          delayFee0 = (if diff > 0 then Some (js_times pricePerDay0 (of_int diff)) else None)
      in
     (case update_rental db returnDate0 delayFee0 p of
        Inl e \<Rightarrow> Inl e
      | Inr db' \<Rightarrow> Inr (201, db'))))))"

definition post_rentals_return :: "date \<Rightarrow> int option \<Rightarrow> store \<Rightarrow> nat \<times> store" where
  "post_rentals_return today p db =
     (case post_rentals_return_try today p db of
        Inl e \<Rightarrow> (500, db)
      | Inr r \<Rightarrow> r)"

section \<open>DELETE /rentals/:id\<close>

text \<open>
  The \<^verbatim>\<open>try\<close> block of the handler (lines 387 to 405). After the \<^verbatim>\<open>DELETE\<close> the
  handler ends without sending anything: the status is \<open>None\<close> there.
\<close>

definition delete_rentals_try ::
  "int option \<Rightarrow> store \<Rightarrow> js_error + (nat option \<times> store)" where
  "delete_rentals_try p db =
     (case select_rentals db p of
        Inl e \<Rightarrow> Inl e
      | Inr rentalExists \<Rightarrow>
     if length rentalExists > 0 then Inr (Some 404, db) else
     (case select_rentals db p of
        Inl e \<Rightarrow> Inl e
      | Inr rental \<Rightarrow>
     (case rental of
        [] \<Rightarrow> Inl TypeError
      | r0 # _ \<Rightarrow>
     if returnDate r0 = None then Inr (Some 400, db) else
     (case delete_rental db p of
        Inl e \<Rightarrow> Inl e
      | Inr db' \<Rightarrow> Inr (None, db')))))"

definition delete_rentals :: "int option \<Rightarrow> store \<Rightarrow> nat option \<times> store" where
  "delete_rentals p db =
     (case delete_rentals_try p db of
        Inl e \<Rightarrow> (Some 500, db)
      | Inr r \<Rightarrow> r)"

section \<open>Sequences of requests\<close>

datatype request =
    PostRentals date rentals_body
  | PostRentalsReturn date "int option"
  | DeleteRentals "int option"

fun handle :: "request \<Rightarrow> store \<Rightarrow> store" where
  "handle (PostRentals today body) db = snd (post_rentals today body db)"
| "handle (PostRentalsReturn today p) db = snd (post_rentals_return today p db)"
| "handle (DeleteRentals p) db = snd (delete_rentals p db)"

fun run :: "request list \<Rightarrow> store \<Rightarrow> store" where
  "run [] db = db"
| "run (q # qs) db = run qs (handle q db)"

text \<open>The open rentals of a game: its rows with a null \<^verbatim>\<open>returnDate\<close>.\<close>

definition open_rentals :: "store \<Rightarrow> int \<Rightarrow> rental list" where
  "open_rentals db g = filter (\<lambda>r. gameId r = g \<and> returnDate r = None) (rentals db)"

text \<open>
  The stock invariant of the ledger: no game has more open rentals than copies in stock.
\<close>

definition stock_inv :: "store \<Rightarrow> bool" where
  "stock_inv db \<longleftrightarrow>
     (\<forall>g \<in> set (games db). int (length (open_rentals db (game_id g))) \<le> stockTotal g)"

section \<open>Rounding to a double\<close>

lemma quotient_of_abs_pos:
  assumes "x \<noteq> 0" and "quotient_of \<bar>x\<bar> = (a, b)"
  shows "0 < a" and "0 < b" and "\<bar>x\<bar> = of_int a / of_int b"
proof -
  from assms(2) show b: "0 < b" by (rule quotient_of_denom_pos)
  from assms(2) show q: "\<bar>x\<bar> = of_int a / of_int b" by (rule quotient_of_div)
  from assms(1) have "0 < \<bar>x\<bar>" by simp
  with q b have "0 < (of_int a :: rat)" by (simp add: zero_less_divide_iff)
  then show "0 < a" by simp
qed

lemma two_powi_nat: "0 \<le> e \<Longrightarrow> (2 :: rat) powi e = 2 ^ nat e"
  by (simp add: power_int_def)

lemma bitlen_pos: "0 < a \<Longrightarrow> 1 \<le> bitlen a"
  by (simp add: bitlen_alt_def)

lemma bitlen_lower_rat: "0 < a \<Longrightarrow> (2 :: rat) powi (bitlen a - 1) \<le> of_int a"
proof -
  assume a: "0 < a"
  then have "2 ^ nat (bitlen a - 1) \<le> a" using bitlen_bounds by blast
  then have "(of_int (2 ^ nat (bitlen a - 1)) :: rat) \<le> of_int a" by (simp only: of_int_le_iff)
  moreover have "0 \<le> bitlen a - 1" using bitlen_pos[OF a] by simp
  ultimately show ?thesis by (simp add: two_powi_nat)
qed

lemma bitlen_upper_rat: "0 < a \<Longrightarrow> of_int a < (2 :: rat) powi (bitlen a)"
proof -
  assume a: "0 < a"
  then have "a < 2 ^ nat (bitlen a)" using bitlen_bounds by blast
  then have "(of_int a :: rat) < of_int (2 ^ nat (bitlen a))" by (simp only: of_int_less_iff)
  moreover have "0 \<le> bitlen a" by (rule bitlen_nonneg)
  ultimately show ?thesis by (simp add: two_powi_nat)
qed

lemma expo_bounds:
  assumes "x \<noteq> 0"
  shows "2 powi (expo x) \<le> \<bar>x\<bar>" and "\<bar>x\<bar> < 2 powi (expo x + 1)"
proof -
  obtain a b where q: "quotient_of \<bar>x\<bar> = (a, b)" by (cases "quotient_of \<bar>x\<bar>")
  note ab = quotient_of_abs_pos[OF assms q]
  let ?e = "bitlen a - bitlen b"
  have bpos: "(0 :: rat) < of_int b" using ab(2) by simp
  have apos: "(0 :: rat) < of_int a" using ab(1) by simp
  have low: "(2 :: rat) powi (?e - 1) \<le> \<bar>x\<bar>"
  proof -
    have "(2 :: rat) powi (?e - 1) = 2 powi (bitlen a - 1) / 2 powi (bitlen b)"
      using power_int_diff[of "2 :: rat" "bitlen a - 1" "bitlen b"] by (simp add: algebra_simps)
    also have "\<dots> \<le> of_int a / 2 powi (bitlen b)"
      using bitlen_lower_rat[OF ab(1)] by (simp add: divide_right_mono)
    also have "\<dots> \<le> of_int a / of_int b"
      using bitlen_upper_rat[OF ab(2)] apos bpos by (simp add: frac_le)
    finally show ?thesis using ab(3) by simp
  qed
  have up: "\<bar>x\<bar> < (2 :: rat) powi (?e + 1)"
  proof -
    have "\<bar>x\<bar> = of_int a / of_int b" by (rule ab(3))
    also have "\<dots> < 2 powi (bitlen a) / of_int b"
      using bitlen_upper_rat[OF ab(1)] bpos by (simp add: divide_strict_right_mono)
    also have "\<dots> \<le> 2 powi (bitlen a) / 2 powi (bitlen b - 1)"
      using bitlen_lower_rat[OF ab(2)] by (simp add: frac_le)
    also have "\<dots> = (2 :: rat) powi (?e + 1)"
      using power_int_diff[of "2 :: rat" "bitlen a" "bitlen b - 1"] by (simp add: algebra_simps)
    finally show ?thesis .
  qed
  show "2 powi (expo x) \<le> \<bar>x\<bar>"
    using low q by (simp add: expo_def Let_def)
  show "\<bar>x\<bar> < 2 powi (expo x + 1)"
    using up q by (auto simp: expo_def Let_def not_le)
qed

lemma rne_of_int: "rne (of_int m) = m"
  by (simp add: rne_def)

lemma fl_of_int:
  assumes "\<bar>k\<bar> \<le> 2 ^ 53"
  shows "fl (of_int k) = Num (of_int k)"
proof (cases "k = 0")
  case True
  then show ?thesis by (simp add: fl_def)
next
  case False
  let ?x = "of_int k :: rat"
  let ?e = "max (expo ?x - 52) (- 1074)"
  from False have x0: "?x \<noteq> 0" by simp
  have absx: "\<bar>?x\<bar> = of_int \<bar>k\<bar>" by simp
  have le53: "\<bar>?x\<bar> \<le> 2 ^ 53"
  proof -
    from assms have "(of_int \<bar>k\<bar> :: rat) \<le> of_int (2 ^ 53)" by (simp only: of_int_le_iff)
    then show ?thesis by simp
  qed
  have "\<exists>m. \<bar>?x\<bar> / 2 powi ?e = of_int m"
  proof (cases "?e \<le> 0")
    case True
    then have "(2 :: rat) powi ?e = inverse (2 ^ nat (- ?e))"
      using power_int_minus[of "2 :: rat" "- ?e"] two_powi_nat[of "- ?e"] by simp
    then have "\<bar>?x\<bar> / 2 powi ?e = of_int (\<bar>k\<bar> * 2 ^ nat (- ?e))"
      by (simp add: divide_inverse)
    then show ?thesis by blast
  next
    case False
    then have e53: "53 \<le> expo ?x" by simp
    have "(2 :: rat) powi 53 \<le> 2 powi (expo ?x)"
      using e53 by (rule power_int_increasing) simp
    also have "\<dots> \<le> \<bar>?x\<bar>" by (rule expo_bounds(1)[OF x0])
    finally have ge: "(2 :: rat) ^ 53 \<le> \<bar>?x\<bar>" by simp
    with le53 have eq: "\<bar>?x\<bar> = 2 ^ 53" by simp
    have "\<not> 54 \<le> expo ?x"
    proof
      assume "54 \<le> expo ?x"
      then have "(2 :: rat) powi 54 \<le> 2 powi (expo ?x)"
        by (rule power_int_increasing) simp
      also have "\<dots> \<le> \<bar>?x\<bar>" by (rule expo_bounds(1)[OF x0])
      finally show False using eq by simp
    qed
    with e53 have "expo ?x = 53" by simp
    then have "?e = 1" by simp
    with eq have "\<bar>?x\<bar> / 2 powi ?e = of_int (2 ^ 52)" by simp
    then show ?thesis by blast
  qed
  then obtain m where m: "\<bar>?x\<bar> / 2 powi ?e = of_int m" by blast
  have p0: "(2 :: rat) powi ?e \<noteq> 0" by simp
  from m have "of_int m * 2 powi ?e = \<bar>?x\<bar>"
    using p0 by (simp add: field_simps)
  then have y: "sgn ?x * of_int (rne (\<bar>?x\<bar> / 2 powi ?e)) * 2 powi ?e = ?x"
    by (simp add: m rne_of_int mult.assoc mult_sgn_abs del: of_int_abs)
  have "\<bar>?x\<bar> < 2 powi 1024"
  proof -
    have "(2 :: rat) ^ 53 < 2 ^ 1024" by (rule power_strict_increasing) simp_all
    with le53 show ?thesis by simp
  qed
  with x0 y show ?thesis by (simp add: fl_def Let_def del: of_int_abs)
qed

text \<open>
  So an integer of at most 53 bits is a double, and reading it or computing it is exact.
\<close>

lemma fl_numeral: "numeral w \<le> (2 :: int) ^ 53 \<Longrightarrow> fl (numeral w) = Num (numeral w)"
  using fl_of_int[of "numeral w"] by simp

lemma js_times_of_int:
  assumes "\<bar>k\<bar> \<le> 2 ^ 53" and "\<bar>k * n\<bar> \<le> 2 ^ 53"
  shows "js_times (fl (of_int k)) (of_int n) = Num (of_int k * of_int n)"
proof -
  have "fl (of_int k * of_int n :: rat) = fl (of_int (k * n))" by simp
  also have "\<dots> = Num (of_int (k * n))" using assms(2) by (rule fl_of_int)
  finally show ?thesis using fl_of_int[OF assms(1)] by (simp add: js_times_def)
qed

text \<open>
  The decimal 1.1 is no double. JavaScript reads it as the double next to it, and three
  times that double is a double again: the one JavaScript prints as
  \<^verbatim>\<open>3.3000000000000003\<close>.
\<close>

lemma fl_eleven_tenths: "fl (11 / 10) = Num (2476979795053773 / 2251799813685248)"
  by code_simp

lemma three_times_eleven_tenths:
  "(2476979795053773 / 2251799813685248 :: rat) * 3 = 7430939385161319 / 2251799813685248"
  by simp

lemma fl_three_times_eleven_tenths:
  "fl (7430939385161319 / 2251799813685248) = Num (7430939385161319 / 2251799813685248)"
  by code_simp

section \<open>Parameters of integer columns\<close>

lemma int_param_of_int:
  "- 2147483648 \<le> i \<Longrightarrow> i \<le> 2147483647 \<Longrightarrow> int_param (of_int i) = Inr i"
  by (simp add: int_param_def)

lemma int_param_cases:
  "(\<exists>i. v = of_int i \<and> - 2147483648 \<le> i \<and> i \<le> 2147483647 \<and> int_param v = Inr i)
   \<or> int_param v = Inl DatabaseError"
  by (auto simp: int_param_def)

lemma floor_three_halves: "\<lfloor>3 / 2 :: rat\<rfloor> = 1"
  by code_simp

lemma three_halves_no_int: "(3 / 2 :: rat) \<noteq> of_int k"
proof
  assume "(3 / 2 :: rat) = of_int k"
  then have "(of_int (2 * k) :: rat) = of_int 3" by simp
  then have "2 * k = 3" by (simp only: of_int_eq_iff)
  then show False by presburger
qed

section \<open>What the return and the delete handlers do\<close>

text \<open>
  Both handlers query the rental twice in a row. The first test answers 404 when the
  first query has a row; otherwise the second query has no row either, and reading
  \<^verbatim>\<open>rental.rows[0].returnDate\<close> throws. No statement after it is reached.
\<close>

lemma post_rentals_return_try_result:
  "post_rentals_return_try today p db =
     (case p of
        None \<Rightarrow> Inl DatabaseError
      | Some i \<Rightarrow>
          if \<exists>r \<in> set (rentals db). rental_id r = i then Inr (404, db) else Inl TypeError)"
proof (cases p)
  case None
  then show ?thesis
    by (simp add: post_rentals_return_try_def select_rentals_def)
next
  case (Some i)
  show ?thesis
  proof (cases "\<exists>r \<in> set (rentals db). rental_id r = i")
    case True
    then have "filter (\<lambda>r. rental_id r = i) (rentals db) \<noteq> []"
      by (simp add: filter_empty_conv)
    with Some True show ?thesis
      by (simp add: post_rentals_return_try_def select_rentals_def)
  next
    case False
    then have "filter (\<lambda>r. rental_id r = i) (rentals db) = []"
      by (simp add: filter_empty_conv)
    with Some False show ?thesis
      by (simp add: post_rentals_return_try_def select_rentals_def)
  qed
qed

lemma delete_rentals_try_result:
  "delete_rentals_try p db =
     (case p of
        None \<Rightarrow> Inl DatabaseError
      | Some i \<Rightarrow>
          if \<exists>r \<in> set (rentals db). rental_id r = i then Inr (Some 404, db)
          else Inl TypeError)"
proof (cases p)
  case None
  then show ?thesis
    by (simp add: delete_rentals_try_def select_rentals_def)
next
  case (Some i)
  show ?thesis
  proof (cases "\<exists>r \<in> set (rentals db). rental_id r = i")
    case True
    then have "filter (\<lambda>r. rental_id r = i) (rentals db) \<noteq> []"
      by (simp add: filter_empty_conv)
    with Some True show ?thesis
      by (simp add: delete_rentals_try_def select_rentals_def)
  next
    case False
    then have "filter (\<lambda>r. rental_id r = i) (rentals db) = []"
      by (simp add: filter_empty_conv)
    with Some False show ?thesis
      by (simp add: delete_rentals_try_def select_rentals_def)
  qed
qed

lemma post_rentals_return_store: "snd (post_rentals_return today p db) = db"
  by (simp add: post_rentals_return_def post_rentals_return_try_result split: option.splits)

lemma delete_rentals_store: "snd (delete_rentals p db) = db"
  by (simp add: delete_rentals_def delete_rentals_try_result split: option.splits)

text \<open>
  C10. For every rental id and every store, POST /rentals/:id/return leaves the store as
  it was. When a rental with that id exists the handler answers 404 at its first test;
  when none exists the second query returns no row, reading \<^verbatim>\<open>rows[0].returnDate\<close>
  throws, and the handler answers 500 (as it does when the id is no integer and the first
  query raises). The \<^verbatim>\<open>try\<close> block ends before the \<^verbatim>\<open>UPDATE\<close> on each of these
  paths.
\<close>

theorem post_rentals_return_never_writes:
  "post_rentals_return_try today p db =
     (case p of
        None \<Rightarrow> Inl DatabaseError
      | Some i \<Rightarrow>
          if \<exists>r \<in> set (rentals db). rental_id r = i then Inr (404, db) else Inl TypeError)
   \<and> post_rentals_return today p db =
       (if \<exists>r \<in> set (rentals db). Some (rental_id r) = p then 404 else 500, db)"
  by (simp add: post_rentals_return_def post_rentals_return_try_result split: option.splits)

section \<open>What the create handler does\<close>

text \<open>
  Every answer of POST /rentals: 400 or 500 with the store as it was, or 201 with one row
  appended. The row is appended only when the three fields are integers of 32 bits, the
  days are positive, the customer and the game exist, the game has fewer rentals in the
  ledger, open or closed, than \<^verbatim>\<open>stockTotal\<close>, and the product of line 281 is
  finite; its price is that product.
\<close>

lemmas create_defs = post_rentals_def post_rentals_try_def rentalsReqSchema_def safe_def
  select_games_def select_customers_def select_rentals_of_game_def insert_rental_def
  int_param_def

lemma post_rentals_shape:
  "post_rentals today body db = (400, db) \<or> post_rentals today body db = (500, db) \<or>
   (\<exists>c g n g0 gs p.
       body_customerId body = Some (of_int c) \<and> body_gameId body = Some (of_int g) \<and>
       body_daysRented body = Some (of_int n) \<and> 0 < n \<and>
       filter (\<lambda>x. game_id x = g) (games db) = g0 # gs \<and>
       filter (\<lambda>x. customer_id x = c) (customers db) \<noteq> [] \<and>
       int (length (filter (\<lambda>r. gameId r = g) (rentals db))) < stockTotal g0 \<and>
       js_times (fl (pricePerDay g0)) (of_int n) = Num p \<and>
       post_rentals today body db =
         (201, db\<lparr>rentals := rentals db @
                 [\<lparr>rental_id = rentals_id_seq db, customerId = c, gameId = g,
                   rentDate = today, daysRented = n, returnDate = None,
                   originalPrice = p, delayFee = None\<rparr>],
                 rentals_id_seq := rentals_id_seq db + 1\<rparr>))"
proof (cases "rentalsReqSchema body")
  case False
  then show ?thesis by (simp add: post_rentals_def)
next
  case True
  then obtain cId gId nDays where b: "body_customerId body = Some cId"
    "body_gameId body = Some gId" "body_daysRented body = Some nDays"
    by (auto simp: rentalsReqSchema_def safe_def split: option.splits)
  consider (bad) "int_param cId = Inl DatabaseError \<or> int_param gId = Inl DatabaseError
      \<or> int_param nDays = Inl DatabaseError"
    | (good) c g n where "cId = of_int c" "gId = of_int g" "nDays = of_int n"
        "int_param cId = Inr c" "int_param gId = Inr g" "int_param nDays = Inr n"
    using int_param_cases[of cId] int_param_cases[of gId] int_param_cases[of nDays] by blast
  then show ?thesis
  proof cases
    case bad
    with True b show ?thesis
      by (auto simp: post_rentals_def post_rentals_try_def select_games_def
          select_customers_def select_rentals_of_game_def insert_rental_def Let_def
          split: sum.splits list.splits number.splits)
  next
    case good
    show ?thesis
    proof (cases "js_times (fl (pricePerDay (hd (filter (\<lambda>x. game_id x = g) (games db)))))
        (of_int n)")
      case NonFinite
      with good True b show ?thesis
        by (auto simp: post_rentals_def post_rentals_try_def select_games_def
            select_customers_def select_rentals_of_game_def insert_rental_def Let_def
            split: sum.splits list.splits)
    next
      case (Num p)
      with good True b show ?thesis
        by (auto simp: post_rentals_def post_rentals_try_def select_games_def
            select_customers_def select_rentals_of_game_def insert_rental_def Let_def
            split: sum.splits list.splits if_splits)
    qed
  qed
qed

text \<open>
  And the other way round: a request with fields that are integers of 32 bits and
  positive days, for a customer and a game that exist, is answered 201 as soon as the
  rentals of the game, open or closed, number fewer than \<^verbatim>\<open>stockTotal\<close>, the
  price is finite and the sequence of ids has not run out.
\<close>

lemma post_rentals_accepts:
  assumes "body_customerId body = Some (of_int c)" and "body_gameId body = Some (of_int g)"
    and "body_daysRented body = Some (of_int n)" and "0 < n"
    and "- 2147483648 \<le> c" and "c \<le> 2147483647"
    and "- 2147483648 \<le> g" and "g \<le> 2147483647" and "n \<le> 2147483647"
    and "filter (\<lambda>x. game_id x = g) (games db) = g0 # gs"
    and "\<exists>x \<in> set (customers db). customer_id x = c"
    and "int (length (filter (\<lambda>r. gameId r = g) (rentals db))) < stockTotal g0"
    and "js_times (fl (pricePerDay g0)) (of_int n) = Num p"
    and "rentals_id_seq db \<le> 2147483647"
  shows "post_rentals today body db =
         (201, db\<lparr>rentals := rentals db @
                 [\<lparr>rental_id = rentals_id_seq db, customerId = c, gameId = g,
                   rentDate = today, daysRented = n, returnDate = None,
                   originalPrice = p, delayFee = None\<rparr>],
                 rentals_id_seq := rentals_id_seq db + 1\<rparr>)"
proof -
  from assms(11) have "filter (\<lambda>x. customer_id x = c) (customers db) \<noteq> []"
    by (simp add: filter_empty_conv)
  moreover have "\<bar>of_int c :: rat\<bar> \<le> 9007199254740991"
    "\<bar>of_int g :: rat\<bar> \<le> 9007199254740991" "\<bar>of_int n :: rat\<bar> \<le> 9007199254740991"
    using assms(4-9) by (simp_all add: abs_le_iff)
  ultimately show ?thesis using assms
    by (simp add: post_rentals_def post_rentals_try_def rentalsReqSchema_def safe_def
        select_games_def select_customers_def select_rentals_of_game_def insert_rental_def
        int_param_of_int Let_def)
qed

lemma filter_Cons_find: "filter P xs = y # ys \<Longrightarrow> find P xs = Some y"
  by (induction xs) (auto split: if_splits)

lemma distinct_filter_id:
  "distinct (map game_id gs) \<Longrightarrow> x \<in> set gs \<Longrightarrow>
     filter (\<lambda>y. game_id y = game_id x) gs = [x]"
proof (induction gs)
  case Nil
  then show ?case by simp
next
  case (Cons a gs)
  from Cons.prems(1) have fresh: "game_id a \<notin> game_id ` set gs" by simp
  show ?case
  proof (cases "x = a")
    case True
    from fresh have "\<forall>y \<in> set gs. game_id y \<noteq> game_id a" by (metis imageI)
    then have "filter (\<lambda>y. game_id y = game_id a) gs = []"
      by (simp add: filter_empty_conv)
    with True show ?thesis by simp
  next
    case False
    with Cons.prems have xin: "x \<in> set gs" and d: "distinct (map game_id gs)" by auto
    from fresh xin have "game_id a \<noteq> game_id x" by (metis imageI)
    with Cons.IH[OF d xin] show ?thesis by simp
  qed
qed

section \<open>What a request does to the ledger\<close>

text \<open>
  A request leaves the store as it was, or appends one row for a game that had fewer
  rentals than copies.
\<close>

lemma handle_shape:
  "handle q db = db \<or>
   (\<exists>g g0 gs r.
       filter (\<lambda>x. game_id x = g) (games db) = g0 # gs \<and>
       int (length (filter (\<lambda>r. gameId r = g) (rentals db))) < stockTotal g0 \<and>
       gameId r = g \<and>
       handle q db = db\<lparr>rentals := rentals db @ [r], rentals_id_seq := rentals_id_seq db + 1\<rparr>)"
proof (cases q)
  case (PostRentals today body)
  from post_rentals_shape[of today body db] show ?thesis
  proof (elim disjE exE conjE)
    assume "post_rentals today body db = (400, db)"
    with PostRentals show ?thesis by simp
  next
    assume "post_rentals today body db = (500, db)"
    with PostRentals show ?thesis by simp
  next
    fix c g n :: int and g0 :: game and gs :: "game list" and pr :: rat
    assume f: "filter (\<lambda>x. game_id x = g) (games db) = g0 # gs"
      and l: "int (length (filter (\<lambda>r. gameId r = g) (rentals db))) < stockTotal g0"
      and p: "post_rentals today body db =
         (201, db\<lparr>rentals := rentals db @
                 [\<lparr>rental_id = rentals_id_seq db, customerId = c, gameId = g,
                   rentDate = today, daysRented = n, returnDate = None,
                   originalPrice = pr, delayFee = None\<rparr>],
                 rentals_id_seq := rentals_id_seq db + 1\<rparr>)"
    let ?r = "\<lparr>rental_id = rentals_id_seq db, customerId = c, gameId = g,
                   rentDate = today, daysRented = n, returnDate = None,
                   originalPrice = pr, delayFee = None\<rparr>"
    from p PostRentals have "handle q db =
        db\<lparr>rentals := rentals db @ [?r], rentals_id_seq := rentals_id_seq db + 1\<rparr>"
      by simp
    moreover have "gameId ?r = g" by simp
    ultimately show ?thesis using f l by blast
  qed
next
  case (PostRentalsReturn today p)
  then show ?thesis by (simp add: post_rentals_return_store)
next
  case (DeleteRentals p)
  then show ?thesis by (simp add: delete_rentals_store)
qed

lemma handle_games: "games (handle q db) = games db"
  using handle_shape[of q db] by auto

lemma handle_rentals: "\<exists>rs. rentals (handle q db) = rentals db @ rs"
  using handle_shape[of q db] by auto

lemma run_games: "games (run qs db) = games db"
  by (induction qs arbitrary: db) (simp_all add: handle_games)

lemma run_rentals: "\<exists>rs. rentals (run qs db) = rentals db @ rs"
proof (induction qs arbitrary: db)
  case Nil
  then show ?case by simp
next
  case (Cons q qs)
  obtain rs where 1: "rentals (handle q db) = rentals db @ rs"
    using handle_rentals by blast
  obtain rs' where 2: "rentals (run qs (handle q db)) = rentals (handle q db) @ rs'"
    using Cons.IH by blast
  from 1 2 show ?case by simp
qed

lemma open_le_all:
  "length (open_rentals db g) \<le> length (filter (\<lambda>r. gameId r = g) (rentals db))"
proof -
  have "open_rentals db g = filter (\<lambda>r. returnDate r = None) (filter (\<lambda>r. gameId r = g) (rentals db))"
    by (simp add: open_rentals_def)
  then show ?thesis by (simp only: length_filter_le)
qed

lemma stock_inv_handle:
  assumes d: "distinct (map game_id (games db))" and inv: "stock_inv db"
  shows "stock_inv (handle q db)"
  using handle_shape[of q db]
proof (elim disjE exE conjE)
  assume "handle q db = db"
  with inv show ?thesis by simp
next
  fix g g0 gs r
  assume f: "filter (\<lambda>x. game_id x = g) (games db) = g0 # gs"
    and l: "int (length (filter (\<lambda>r. gameId r = g) (rentals db))) < stockTotal g0"
    and gr: "gameId r = g"
    and h: "handle q db = db\<lparr>rentals := rentals db @ [r], rentals_id_seq := rentals_id_seq db + 1\<rparr>"
  show ?thesis
    unfolding stock_inv_def
  proof
    fix x assume "x \<in> set (games (handle q db))"
    with h have xin: "x \<in> set (games db)" by simp
    show "int (length (open_rentals (handle q db) (game_id x))) \<le> stockTotal x"
    proof (cases "game_id x = g")
      case False
      with h gr have "open_rentals (handle q db) (game_id x) = open_rentals db (game_id x)"
        by (auto simp: open_rentals_def)
      with inv xin show ?thesis by (simp add: stock_inv_def)
    next
      case True
      from distinct_filter_id[OF d xin] True f have "x = g0" by simp
      have "length (open_rentals (handle q db) g) \<le> Suc (length (open_rentals db g))"
        using h by (simp add: open_rentals_def)
      also have "\<dots> \<le> Suc (length (filter (\<lambda>r. gameId r = g) (rentals db)))"
        using open_le_all[of db g] by simp
      finally show ?thesis using l True \<open>x = g0\<close> by simp
    qed
  qed
qed

section \<open>The stock invariant\<close>

text \<open>
  C9. Requests are handled one after the other. From a store whose games have distinct
  ids and whose ledger respects the stock of every game (an empty ledger over games of
  non-negative stock, for one), every sequence of create, close and delete requests,
  whatever their ids and bodies, leads to a store where no game has more rentals with a
  null \<^verbatim>\<open>returnDate\<close> than its \<^verbatim>\<open>stockTotal\<close>.
\<close>

theorem open_rentals_never_exceed_stock:
  assumes "distinct (map game_id (games db))" and "stock_inv db"
  shows "stock_inv (run qs db)"
  using assms
proof (induction qs arbitrary: db)
  case Nil
  then show ?case by simp
next
  case (Cons q qs)
  have "distinct (map game_id (games (handle q db)))"
    using Cons.prems(1) by (simp add: handle_games)
  moreover have "stock_inv (handle q db)"
    using Cons.prems by (rule stock_inv_handle)
  ultimately show ?case using Cons.IH by simp
qed

theorem open_rentals_never_exceed_stock_witness:
  "distinct (map game_id
      [\<lparr>game_id = 1, stockTotal = 1, pricePerDay = 10\<rparr>,
       \<lparr>game_id = 2, stockTotal = 3, pricePerDay = 5\<rparr>])
   \<and> stock_inv
       (run [PostRentals 100
               \<lparr>body_customerId = Some 1, body_gameId = Some 1, body_daysRented = Some 3\<rparr>,
             PostRentals 101
               \<lparr>body_customerId = Some 1, body_gameId = Some 1, body_daysRented = Some 2\<rparr>,
             PostRentalsReturn 105 (Some 1),
             DeleteRentals (Some 1)]
          \<lparr>games = [\<lparr>game_id = 1, stockTotal = 1, pricePerDay = 10\<rparr>,
                     \<lparr>game_id = 2, stockTotal = 3, pricePerDay = 5\<rparr>],
            customers = [\<lparr>customer_id = 1\<rparr>], rentals = [], rentals_id_seq = 1\<rparr>)
   \<and> map rental_id (open_rentals
       (run [PostRentals 100
               \<lparr>body_customerId = Some 1, body_gameId = Some 1, body_daysRented = Some 3\<rparr>,
             PostRentals 101
               \<lparr>body_customerId = Some 1, body_gameId = Some 1, body_daysRented = Some 2\<rparr>,
             PostRentalsReturn 105 (Some 1),
             DeleteRentals (Some 1)]
          \<lparr>games = [\<lparr>game_id = 1, stockTotal = 1, pricePerDay = 10\<rparr>,
                     \<lparr>game_id = 2, stockTotal = 3, pricePerDay = 5\<rparr>],
            customers = [\<lparr>customer_id = 1\<rparr>], rentals = [], rentals_id_seq = 1\<rparr>) 1) = [1]"
proof -
  let ?db = "\<lparr>games = [\<lparr>game_id = 1, stockTotal = 1, pricePerDay = 10\<rparr>,
                     \<lparr>game_id = 2, stockTotal = 3, pricePerDay = 5\<rparr>],
            customers = [\<lparr>customer_id = 1\<rparr>], rentals = [], rentals_id_seq = 1\<rparr>"
  let ?qs = "[PostRentals 100
               \<lparr>body_customerId = Some 1, body_gameId = Some 1, body_daysRented = Some 3\<rparr>,
             PostRentals 101
               \<lparr>body_customerId = Some 1, body_gameId = Some 1, body_daysRented = Some 2\<rparr>,
             PostRentalsReturn 105 (Some 1),
             DeleteRentals (Some 1)]"
  have d: "distinct (map game_id (games ?db))" by simp
  have d': "distinct (map game_id
      [\<lparr>game_id = 1, stockTotal = 1, pricePerDay = 10\<rparr>,
       \<lparr>game_id = 2, stockTotal = 3, pricePerDay = 5\<rparr>])" by simp
  have i: "stock_inv ?db" by (simp add: stock_inv_def open_rentals_def)
  have s: "stock_inv (run ?qs ?db)" by (rule open_rentals_never_exceed_stock[OF d i])
  have o: "map rental_id (open_rentals (run ?qs ?db) 1) = [1]"
    by (simp add: open_rentals_def create_defs js_times_def fl_numeral
        post_rentals_return_store delete_rentals_store)
  from d' s o show ?thesis by (intro conjI)
qed

section \<open>The price of a rental\<close>

text \<open>
  The \<^verbatim>\<open>UPDATE\<close> of line 372 sets \<^verbatim>\<open>returnDate\<close> and \<^verbatim>\<open>delayFee\<close>
  only: whatever row it reaches keeps its \<^verbatim>\<open>originalPrice\<close>.
\<close>

lemma update_rental_originalPrice:
  "update_rental db date fee p = Inr db' \<Longrightarrow>
     map originalPrice (rentals db') = map originalPrice (rentals db)"
  by (auto simp: update_rental_def split: option.splits number.splits)

text \<open>
  C6, as the code has it. When POST /rentals answers 201, the body holds an integer game
  id and an integer number of days, the ledger has exactly one row more, and the
  \<^verbatim>\<open>originalPrice\<close> of that row is the product line 281 computes: the double
  nearest to the product of the days and the \<^verbatim>\<open>pricePerDay\<close> of the game (the first
  row of \<^verbatim>\<open>games\<close> with that id), itself read as a double. That is the exact
  product whenever the price is an integer and the product has at most 53 bits. After
  every later sequence of requests the rows of the ledger, the new one among them, are
  still there as they were written, so the price stays what it was at creation.
\<close>

theorem original_price_double_product_and_frozen:
  assumes "post_rentals today body db = (201, db')"
  shows "\<exists>g n g0 r.
           body_gameId body = Some (of_int g) \<and> body_daysRented body = Some (of_int n) \<and>
           find (\<lambda>x. game_id x = g) (games db) = Some g0 \<and>
           rentals db' = rentals db @ [r] \<and>
           js_times (fl (pricePerDay g0)) (of_int n) = Num (originalPrice r) \<and>
           ((\<exists>k. pricePerDay g0 = of_int k \<and> \<bar>k * n\<bar> \<le> 2 ^ 53)
              \<longrightarrow> originalPrice r = pricePerDay g0 * of_int n) \<and>
           (\<forall>qs. \<exists>rs. rentals (run qs db') = rentals db @ r # rs)"
  using post_rentals_shape[of today body db]
proof (elim disjE exE conjE)
  assume "post_rentals today body db = (400, db)"
  with assms show ?thesis by simp
next
  assume "post_rentals today body db = (500, db)"
  with assms show ?thesis by simp
next
  fix c g n :: int and g0 :: game and gs :: "game list" and pr :: rat
  let ?r = "\<lparr>rental_id = rentals_id_seq db, customerId = c, gameId = g,
                   rentDate = today, daysRented = n, returnDate = None,
                   originalPrice = pr, delayFee = None\<rparr>"
  assume bg: "body_gameId body = Some (of_int g)"
    and bn: "body_daysRented body = Some (of_int n)"
    and npos: "0 < n"
    and f: "filter (\<lambda>x. game_id x = g) (games db) = g0 # gs"
    and pr: "js_times (fl (pricePerDay g0)) (of_int n) = Num pr"
    and p: "post_rentals today body db =
         (201, db\<lparr>rentals := rentals db @ [?r], rentals_id_seq := rentals_id_seq db + 1\<rparr>)"
  from p assms have db': "db' = db\<lparr>rentals := rentals db @ [?r],
      rentals_id_seq := rentals_id_seq db + 1\<rparr>" by simp
  then have r: "rentals db' = rentals db @ [?r]" by simp
  have later: "\<forall>qs. \<exists>rs. rentals (run qs db') = rentals db @ ?r # rs"
  proof
    fix qs
    obtain rs where "rentals (run qs db') = rentals db' @ rs"
      using run_rentals by blast
    with r show "\<exists>rs. rentals (run qs db') = rentals db @ ?r # rs" by simp
  qed
  have price: "js_times (fl (pricePerDay g0)) (of_int n) = Num (originalPrice ?r)"
    using pr by simp
  have exact: "(\<exists>k. pricePerDay g0 = of_int k \<and> \<bar>k * n\<bar> \<le> 2 ^ 53)
      \<longrightarrow> originalPrice ?r = pricePerDay g0 * of_int n"
  proof
    assume "\<exists>k. pricePerDay g0 = of_int k \<and> \<bar>k * n\<bar> \<le> 2 ^ 53"
    then obtain k where k: "pricePerDay g0 = of_int k" and kn: "\<bar>k * n\<bar> \<le> 2 ^ 53"
      by blast
    from npos have "\<bar>k\<bar> * 1 \<le> \<bar>k\<bar> * \<bar>n\<bar>" by (intro mult_left_mono) simp_all
    with kn have "\<bar>k\<bar> \<le> 2 ^ 53" by (simp add: abs_mult)
    from js_times_of_int[OF this kn] pr k have "pr = of_int k * of_int n" by simp
    with k show "originalPrice ?r = pricePerDay g0 * of_int n" by simp
  qed
  from bg bn filter_Cons_find[OF f] r price exact later show ?thesis by blast
qed

theorem original_price_double_product_and_frozen_witness:
  "post_rentals 100
     \<lparr>body_customerId = Some 1, body_gameId = Some 1, body_daysRented = Some 3\<rparr>
     \<lparr>games = [\<lparr>game_id = 1, stockTotal = 2, pricePerDay = 10\<rparr>],
      customers = [\<lparr>customer_id = 1\<rparr>], rentals = [], rentals_id_seq = 1\<rparr>
   = (201,
     \<lparr>games = [\<lparr>game_id = 1, stockTotal = 2, pricePerDay = 10\<rparr>],
      customers = [\<lparr>customer_id = 1\<rparr>],
      rentals = [\<lparr>rental_id = 1, customerId = 1, gameId = 1, rentDate = 100,
                  daysRented = 3, returnDate = None, originalPrice = 30, delayFee = None\<rparr>],
      rentals_id_seq = 2\<rparr>)
   \<and> (\<exists>(g0 :: game) (r :: rental).
        find (\<lambda>x. game_id x = 1) [\<lparr>game_id = 1, stockTotal = 2, pricePerDay = 10\<rparr>] = Some g0 \<and>
        originalPrice r = pricePerDay g0 * 3 \<and> originalPrice r = 30)"
proof -
  let ?body = "\<lparr>body_customerId = Some 1, body_gameId = Some 1, body_daysRented = Some 3\<rparr>"
  let ?db = "\<lparr>games = [\<lparr>game_id = 1, stockTotal = 2, pricePerDay = 10\<rparr>],
      customers = [\<lparr>customer_id = 1\<rparr>], rentals = [], rentals_id_seq = 1\<rparr>"
  let ?db' = "\<lparr>games = [\<lparr>game_id = 1, stockTotal = 2, pricePerDay = 10\<rparr>],
      customers = [\<lparr>customer_id = 1\<rparr>],
      rentals = [\<lparr>rental_id = 1, customerId = 1, gameId = 1, rentDate = 100,
                  daysRented = 3, returnDate = None, originalPrice = 30, delayFee = None\<rparr>],
      rentals_id_seq = 2\<rparr>"
  have h: "post_rentals 100 ?body ?db = (201, ?db')"
    by (simp add: create_defs js_times_def fl_numeral)
  from original_price_double_product_and_frozen[OF h]
  obtain g n :: int and g0 :: game and r :: rental where
    g: "body_gameId ?body = Some (of_int g)" and n: "body_daysRented ?body = Some (of_int n)" and
    f: "find (\<lambda>x. game_id x = g) (games ?db) = Some g0" and
    r: "rentals ?db' = rentals ?db @ [r]" and
    e: "(\<exists>k. pricePerDay g0 = of_int k \<and> \<bar>k * n\<bar> \<le> 2 ^ 53)
          \<longrightarrow> originalPrice r = pricePerDay g0 * of_int n"
    by blast
  from g have g1: "g = 1" by simp
  from n have "(of_int n :: rat) = of_int 3" by simp
  then have n3: "n = 3" by (simp only: of_int_eq_iff)
  from f g1 have g0: "g0 = \<lparr>game_id = 1, stockTotal = 2, pricePerDay = 10\<rparr>" by simp
  have "pricePerDay g0 = of_int 10 \<and> \<bar>10 * n\<bar> \<le> 2 ^ 53" using g0 n3 by simp
  then have "\<exists>k. pricePerDay g0 = of_int k \<and> \<bar>k * n\<bar> \<le> 2 ^ 53" by blast
  with e have p: "originalPrice r = pricePerDay g0 * of_int n" by blast
  from r have "r = \<lparr>rental_id = 1, customerId = 1, gameId = 1, rentDate = 100,
      daysRented = 3, returnDate = None, originalPrice = 30, delayFee = None\<rparr>" by simp
  then have "originalPrice r = 30" by (simp only: rental.simps)
  with f p g1 n3 have "\<exists>(g0 :: game) (r :: rental).
        find (\<lambda>x. game_id x = 1) [\<lparr>game_id = 1, stockTotal = 2, pricePerDay = 10\<rparr>] = Some g0 \<and>
        originalPrice r = pricePerDay g0 * 3 \<and> originalPrice r = 30"
    by auto
  with h show ?thesis by (rule conjI)
qed

text \<open>
  C6, as the claim states it, fails. A game at 1.1 a day rented for 3 days is stored with
  the price JavaScript prints as \<^verbatim>\<open>3.3000000000000003\<close>: the double next to 1.1
  times 3, which is not 3.3 and lies within 0.0000000000000001 of 3.3000000000000003.
\<close>

theorem original_price_not_exact:
  "post_rentals 100
     \<lparr>body_customerId = Some 1, body_gameId = Some 1, body_daysRented = Some 3\<rparr>
     \<lparr>games = [\<lparr>game_id = 1, stockTotal = 2, pricePerDay = 11 / 10\<rparr>],
      customers = [\<lparr>customer_id = 1\<rparr>], rentals = [], rentals_id_seq = 1\<rparr>
   = (201,
     \<lparr>games = [\<lparr>game_id = 1, stockTotal = 2, pricePerDay = 11 / 10\<rparr>],
      customers = [\<lparr>customer_id = 1\<rparr>],
      rentals = [\<lparr>rental_id = 1, customerId = 1, gameId = 1, rentDate = 100,
                  daysRented = 3, returnDate = None,
                  originalPrice = 7430939385161319 / 2251799813685248, delayFee = None\<rparr>],
      rentals_id_seq = 2\<rparr>)
   \<and> (7430939385161319 / 2251799813685248 :: rat) \<noteq> 11 / 10 * 3
   \<and> \<bar>7430939385161319 / 2251799813685248 - 33000000000000003 / 10000000000000000 :: rat\<bar>
       < 1 / 10000000000000000"
  by (simp add: create_defs js_times_def fl_eleven_tenths fl_three_times_eleven_tenths)

section \<open>The days of a rental\<close>

text \<open>
  C8, as the code has it. \<^verbatim>\<open>rentalsReqSchema\<close> asks for a safe number and nothing
  more; the handler adds the test \<^verbatim>\<open>daysRented <= 0\<close> of line 301. So a request
  whose customer and game ids are integers of 32 bits, whose game exists and whose days
  are zero or negative is answered 400 with the store as it was. Whenever the days are
  not a positive integer, the answer is 400 or 500 and the store is as it was. And when
  the days are missing or no number, the answer is 400.
\<close>

theorem days_not_positive_integer:
  "(body_customerId body = Some (of_int c) \<and> - 2147483648 \<le> c \<and> c \<le> 2147483647 \<and>
    body_gameId body = Some (of_int g) \<and> - 2147483648 \<le> g \<and> g \<le> 2147483647 \<and>
    (\<exists>x \<in> set (games db). game_id x = g) \<and>
    body_daysRented body = Some n \<and> n \<le> 0
      \<longrightarrow> post_rentals today body db = (400, db))
   \<and> ((\<forall>k. 0 < k \<longrightarrow> body_daysRented body \<noteq> Some (of_int k))
      \<longrightarrow> post_rentals today body db = (400, db) \<or> post_rentals today body db = (500, db))
   \<and> (body_daysRented body = None \<longrightarrow> post_rentals today body db = (400, db))"
proof (intro conjI impI)
  assume a: "body_customerId body = Some (of_int c) \<and> - 2147483648 \<le> c \<and> c \<le> 2147483647 \<and>
    body_gameId body = Some (of_int g) \<and> - 2147483648 \<le> g \<and> g \<le> 2147483647 \<and>
    (\<exists>x \<in> set (games db). game_id x = g) \<and> body_daysRented body = Some n \<and> n \<le> 0"
  show "post_rentals today body db = (400, db)"
  proof (cases "rentalsReqSchema body")
    case False
    then show ?thesis by (simp add: post_rentals_def)
  next
    case True
    from a have "filter (\<lambda>x. game_id x = g) (games db) \<noteq> []"
      by (simp add: filter_empty_conv)
    then obtain g0 gs where "filter (\<lambda>x. game_id x = g) (games db) = g0 # gs"
      by (cases "filter (\<lambda>x. game_id x = g) (games db)") auto
    with a True show ?thesis
      by (simp add: post_rentals_def post_rentals_try_def select_games_def
          select_customers_def int_param_of_int Let_def)
  qed
next
  assume a: "\<forall>k. 0 < k \<longrightarrow> body_daysRented body \<noteq> Some (of_int k)"
  from post_rentals_shape[of today body db] a
  show "post_rentals today body db = (400, db) \<or> post_rentals today body db = (500, db)"
    by (elim disjE exE conjE) auto
next
  assume "body_daysRented body = None"
  then show "post_rentals today body db = (400, db)"
    by (simp add: post_rentals_def rentalsReqSchema_def safe_def)
qed

theorem days_not_positive_integer_witness:
  "post_rentals 100
     \<lparr>body_customerId = Some 1, body_gameId = Some 1, body_daysRented = Some 0\<rparr>
     \<lparr>games = [\<lparr>game_id = 1, stockTotal = 2, pricePerDay = 10\<rparr>],
      customers = [\<lparr>customer_id = 1\<rparr>], rentals = [], rentals_id_seq = 1\<rparr>
   = (400,
     \<lparr>games = [\<lparr>game_id = 1, stockTotal = 2, pricePerDay = 10\<rparr>],
      customers = [\<lparr>customer_id = 1\<rparr>], rentals = [], rentals_id_seq = 1\<rparr>)
   \<and> (post_rentals 100
     \<lparr>body_customerId = Some 1, body_gameId = Some 1, body_daysRented = Some (3 / 2)\<rparr>
     \<lparr>games = [\<lparr>game_id = 1, stockTotal = 2, pricePerDay = 10\<rparr>],
      customers = [\<lparr>customer_id = 1\<rparr>], rentals = [], rentals_id_seq = 1\<rparr>
   = (400,
     \<lparr>games = [\<lparr>game_id = 1, stockTotal = 2, pricePerDay = 10\<rparr>],
      customers = [\<lparr>customer_id = 1\<rparr>], rentals = [], rentals_id_seq = 1\<rparr>)
     \<or> post_rentals 100
     \<lparr>body_customerId = Some 1, body_gameId = Some 1, body_daysRented = Some (3 / 2)\<rparr>
     \<lparr>games = [\<lparr>game_id = 1, stockTotal = 2, pricePerDay = 10\<rparr>],
      customers = [\<lparr>customer_id = 1\<rparr>], rentals = [], rentals_id_seq = 1\<rparr>
   = (500,
     \<lparr>games = [\<lparr>game_id = 1, stockTotal = 2, pricePerDay = 10\<rparr>],
      customers = [\<lparr>customer_id = 1\<rparr>], rentals = [], rentals_id_seq = 1\<rparr>))
   \<and> post_rentals 100
     \<lparr>body_customerId = Some 1, body_gameId = Some 1, body_daysRented = None\<rparr>
     \<lparr>games = [\<lparr>game_id = 1, stockTotal = 2, pricePerDay = 10\<rparr>],
      customers = [\<lparr>customer_id = 1\<rparr>], rentals = [], rentals_id_seq = 1\<rparr>
   = (400,
     \<lparr>games = [\<lparr>game_id = 1, stockTotal = 2, pricePerDay = 10\<rparr>],
      customers = [\<lparr>customer_id = 1\<rparr>], rentals = [], rentals_id_seq = 1\<rparr>)"
proof -
  let ?db = "\<lparr>games = [\<lparr>game_id = 1, stockTotal = 2, pricePerDay = 10\<rparr>],
      customers = [\<lparr>customer_id = 1\<rparr>], rentals = [], rentals_id_seq = 1\<rparr>"
  let ?zero = "\<lparr>body_customerId = Some 1, body_gameId = Some 1, body_daysRented = Some 0\<rparr>"
  let ?half = "\<lparr>body_customerId = Some 1, body_gameId = Some 1,
      body_daysRented = Some (3 / 2)\<rparr>"
  let ?none = "\<lparr>body_customerId = Some 1, body_gameId = Some 1, body_daysRented = None\<rparr>"
  have 1: "body_customerId ?zero = Some (of_int 1) \<and> - 2147483648 \<le> (1 :: int) \<and>
    (1 :: int) \<le> 2147483647 \<and>
    body_gameId ?zero = Some (of_int 1) \<and> - 2147483648 \<le> (1 :: int) \<and>
    (1 :: int) \<le> 2147483647 \<and>
    (\<exists>x \<in> set (games ?db). game_id x = 1) \<and>
    body_daysRented ?zero = Some 0 \<and> (0 :: rat) \<le> 0"
    by simp
  have "body_daysRented ?half = Some (3 / 2)" by simp
  then have 2: "\<forall>k. 0 < k \<longrightarrow> body_daysRented ?half \<noteq> Some (of_int k)"
    using three_halves_no_int by (metis option.inject)
  have 3: "body_daysRented ?none = None" by simp
  from days_not_positive_integer[of ?zero 1 1 ?db 0 100] 1
  have a: "post_rentals 100 ?zero ?db = (400, ?db)" by blast
  from days_not_positive_integer[of ?half c g ?db n 100] 2
  have b: "post_rentals 100 ?half ?db = (400, ?db) \<or> post_rentals 100 ?half ?db = (500, ?db)"
    by blast
  from days_not_positive_integer[of ?none c g ?db n 100] 3
  have d: "post_rentals 100 ?none ?db = (400, ?db)" by blast
  from a b d show ?thesis by (intro conjI)
qed

text \<open>
  C8, as the claim states it, fails: a request for one day and a half passes
  \<^verbatim>\<open>rentalsReqSchema\<close> and every test of the handler. It is the \<^verbatim>\<open>INSERT\<close> that
  raises, on the integer column, and the answer is 500, not 400.
\<close>

theorem fractional_days_not_rejected_as_invalid:
  "rentalsReqSchema
     \<lparr>body_customerId = Some 1, body_gameId = Some 1, body_daysRented = Some (3 / 2)\<rparr>
   \<and> post_rentals 100
     \<lparr>body_customerId = Some 1, body_gameId = Some 1, body_daysRented = Some (3 / 2)\<rparr>
     \<lparr>games = [\<lparr>game_id = 1, stockTotal = 2, pricePerDay = 10\<rparr>],
      customers = [\<lparr>customer_id = 1\<rparr>], rentals = [], rentals_id_seq = 1\<rparr>
   = (500,
     \<lparr>games = [\<lparr>game_id = 1, stockTotal = 2, pricePerDay = 10\<rparr>],
      customers = [\<lparr>customer_id = 1\<rparr>], rentals = [], rentals_id_seq = 1\<rparr>)"
  by (simp add: create_defs floor_three_halves)

section \<open>Where the handlers part from the specified contract\<close>

text \<open>
  C1. The availability test of lines 310 to 319 counts every rental of the game, the
  returned ones too. Here the only copy of game 1 was rented and has been returned
  (\<^verbatim>\<open>returnDate\<close> is set), so the game has no open rental and one copy in stock, and
  the request is answered 400 with nothing inserted.
\<close>

theorem create_counts_closed_rentals:
  "open_rentals
     \<lparr>games = [\<lparr>game_id = 1, stockTotal = 1, pricePerDay = 10\<rparr>],
      customers = [\<lparr>customer_id = 1\<rparr>],
      rentals = [\<lparr>rental_id = 1, customerId = 1, gameId = 1, rentDate = 90,
                  daysRented = 3, returnDate = Some 93, originalPrice = 30, delayFee = None\<rparr>],
      rentals_id_seq = 2\<rparr> 1 = []
   \<and> post_rentals 100
     \<lparr>body_customerId = Some 1, body_gameId = Some 1, body_daysRented = Some 3\<rparr>
     \<lparr>games = [\<lparr>game_id = 1, stockTotal = 1, pricePerDay = 10\<rparr>],
      customers = [\<lparr>customer_id = 1\<rparr>],
      rentals = [\<lparr>rental_id = 1, customerId = 1, gameId = 1, rentDate = 90,
                  daysRented = 3, returnDate = Some 93, originalPrice = 30, delayFee = None\<rparr>],
      rentals_id_seq = 2\<rparr>
   = (400,
     \<lparr>games = [\<lparr>game_id = 1, stockTotal = 1, pricePerDay = 10\<rparr>],
      customers = [\<lparr>customer_id = 1\<rparr>],
      rentals = [\<lparr>rental_id = 1, customerId = 1, gameId = 1, rentDate = 90,
                  daysRented = 3, returnDate = Some 93, originalPrice = 30, delayFee = None\<rparr>],
      rentals_id_seq = 2\<rparr>)"
  by (simp add: create_defs open_rentals_def)

text \<open>
  C7. A request for a game that does not exist is answered 500: line 281 reads
  \<^verbatim>\<open>gamePrice.rows[0].pricePerDay\<close> on an empty result and throws before the test
  of line 297, which would answer 400, is reached. Nothing is inserted.
\<close>

theorem create_unknown_game_answers_500:
  "post_rentals 100
     \<lparr>body_customerId = Some 1, body_gameId = Some 7, body_daysRented = Some 3\<rparr>
     \<lparr>games = [\<lparr>game_id = 1, stockTotal = 1, pricePerDay = 10\<rparr>],
      customers = [\<lparr>customer_id = 1\<rparr>], rentals = [], rentals_id_seq = 1\<rparr>
   = (500,
     \<lparr>games = [\<lparr>game_id = 1, stockTotal = 1, pricePerDay = 10\<rparr>],
      customers = [\<lparr>customer_id = 1\<rparr>], rentals = [], rentals_id_seq = 1\<rparr>)"
  by (simp add: create_defs)

text \<open>
  C2. Closing a rental that is already closed is answered 404, not 400: the test of line
  341 answers 404 when the rental exists. Nothing is written.
\<close>

theorem return_closed_rental_answers_404:
  "post_rentals_return 100 (Some 1)
     \<lparr>games = [\<lparr>game_id = 1, stockTotal = 1, pricePerDay = 10\<rparr>],
      customers = [\<lparr>customer_id = 1\<rparr>],
      rentals = [\<lparr>rental_id = 1, customerId = 1, gameId = 1, rentDate = 90,
                  daysRented = 3, returnDate = Some 93, originalPrice = 30, delayFee = None\<rparr>],
      rentals_id_seq = 2\<rparr>
   = (404,
     \<lparr>games = [\<lparr>game_id = 1, stockTotal = 1, pricePerDay = 10\<rparr>],
      customers = [\<lparr>customer_id = 1\<rparr>],
      rentals = [\<lparr>rental_id = 1, customerId = 1, gameId = 1, rentDate = 90,
                  daysRented = 3, returnDate = Some 93, originalPrice = 30, delayFee = None\<rparr>],
      rentals_id_seq = 2\<rparr>)"
  by (simp add: post_rentals_return_def post_rentals_return_try_def select_rentals_def)

text \<open>
  C3. Closing a rental that does not exist is answered 500, not 404: the test of line 341
  lets the request pass, and line 350 throws on the empty result. Nothing is written.
\<close>

theorem return_missing_rental_answers_500:
  "post_rentals_return 100 (Some 1)
     \<lparr>games = [\<lparr>game_id = 1, stockTotal = 1, pricePerDay = 10\<rparr>],
      customers = [\<lparr>customer_id = 1\<rparr>], rentals = [], rentals_id_seq = 1\<rparr>
   = (500,
     \<lparr>games = [\<lparr>game_id = 1, stockTotal = 1, pricePerDay = 10\<rparr>],
      customers = [\<lparr>customer_id = 1\<rparr>], rentals = [], rentals_id_seq = 1\<rparr>)"
  by (simp add: post_rentals_return_def post_rentals_return_try_def select_rentals_def)

text \<open>
  C4. Deleting a closed rental is answered 404 and the row stays (first equation);
  deleting an open rental is answered 404 as well, not 400 (second equation). The test of
  line 392 answers 404 when the rental exists.
\<close>

theorem delete_closed_rental_answers_404:
  "delete_rentals (Some 1)
     \<lparr>games = [\<lparr>game_id = 1, stockTotal = 1, pricePerDay = 10\<rparr>],
      customers = [\<lparr>customer_id = 1\<rparr>],
      rentals = [\<lparr>rental_id = 1, customerId = 1, gameId = 1, rentDate = 90,
                  daysRented = 3, returnDate = Some 93, originalPrice = 30, delayFee = None\<rparr>],
      rentals_id_seq = 2\<rparr>
   = (Some 404,
     \<lparr>games = [\<lparr>game_id = 1, stockTotal = 1, pricePerDay = 10\<rparr>],
      customers = [\<lparr>customer_id = 1\<rparr>],
      rentals = [\<lparr>rental_id = 1, customerId = 1, gameId = 1, rentDate = 90,
                  daysRented = 3, returnDate = Some 93, originalPrice = 30, delayFee = None\<rparr>],
      rentals_id_seq = 2\<rparr>)
   \<and> delete_rentals (Some 1)
     \<lparr>games = [\<lparr>game_id = 1, stockTotal = 1, pricePerDay = 10\<rparr>],
      customers = [\<lparr>customer_id = 1\<rparr>],
      rentals = [\<lparr>rental_id = 1, customerId = 1, gameId = 1, rentDate = 90,
                  daysRented = 3, returnDate = None, originalPrice = 30, delayFee = None\<rparr>],
      rentals_id_seq = 2\<rparr>
   = (Some 404,
     \<lparr>games = [\<lparr>game_id = 1, stockTotal = 1, pricePerDay = 10\<rparr>],
      customers = [\<lparr>customer_id = 1\<rparr>],
      rentals = [\<lparr>rental_id = 1, customerId = 1, gameId = 1, rentDate = 90,
                  daysRented = 3, returnDate = None, originalPrice = 30, delayFee = None\<rparr>],
      rentals_id_seq = 2\<rparr>)"
  by (simp add: delete_rentals_def delete_rentals_try_def select_rentals_def)

text \<open>
  C5. Closing an open rental two days late (rented on day 90 for 3 days at 30, closed on
  day 95) records no fee: the handler answers 404 at line 341 and the row keeps its null
  \<^verbatim>\<open>returnDate\<close> and \<^verbatim>\<open>delayFee\<close>. The fee of lines 354 to 370 would be
  \<open>30 / 3 * 2 = 20\<close>.
\<close>

theorem return_open_rental_records_no_fee:
  "post_rentals_return 95 (Some 1)
     \<lparr>games = [\<lparr>game_id = 1, stockTotal = 1, pricePerDay = 10\<rparr>],
      customers = [\<lparr>customer_id = 1\<rparr>],
      rentals = [\<lparr>rental_id = 1, customerId = 1, gameId = 1, rentDate = 90,
                  daysRented = 3, returnDate = None, originalPrice = 30, delayFee = None\<rparr>],
      rentals_id_seq = 2\<rparr>
   = (404,
     \<lparr>games = [\<lparr>game_id = 1, stockTotal = 1, pricePerDay = 10\<rparr>],
      customers = [\<lparr>customer_id = 1\<rparr>],
      rentals = [\<lparr>rental_id = 1, customerId = 1, gameId = 1, rentDate = 90,
                  daysRented = 3, returnDate = None, originalPrice = 30, delayFee = None\<rparr>],
      rentals_id_seq = 2\<rparr>)"
  by (simp add: post_rentals_return_def post_rentals_return_try_def select_rentals_def)

end
